theory Spec2Isabelle
  imports Main "HOL-Library.Word"
begin

section \<open>The newlib system-call stubs of bare_metal_syscalls.c\<close>

text \<open>
  The stubs are compiled for rv64gc with the lp64d ABI (the toolchain file of the
  repository): a pointer and an \<^verbatim>\<open>unsigned long long\<close> are 64 bits wide, an
  \<^verbatim>\<open>int\<close> is 32 bits wide. Machine values are words, so that address arithmetic
  wraps around as the processor does; pointers compare as unsigned numbers (the order of
  words), an \<^verbatim>\<open>int\<close> is read by \<open>sint\<close>.

  A C name starts with an underscore, which no Isabelle name can: \<^verbatim>\<open>_sbrk\<close> is
  \<open>sys_sbrk\<close> here, and so on for every stub. The linker symbols \<^verbatim>\<open>_end\<close> and
  \<^verbatim>\<open>_heap_end\<close> are the fields \<open>end_addr\<close> and \<open>heap_end_addr\<close> of a record.
\<close>

type_synonym addr = "64 word"
type_synonym cint = "32 word"
type_synonym ull = "64 word"

subsection \<open>Constants of the C library headers\<close>

text \<open>
  Modelled from the spec: the macros of \<^verbatim>\<open>errno.h\<close> and \<^verbatim>\<open>sys/stat.h\<close>, which are
  headers of newlib and not among the sources. The error kinds of the specification
  (OutOfMemory, BadDescriptor, InvalidArgument, NotImplemented) are \<^verbatim>\<open>ENOMEM\<close>,
  \<^verbatim>\<open>EBADF\<close>, \<^verbatim>\<open>EINVAL\<close> and \<^verbatim>\<open>ENOSYS\<close>; the mode "character device" is
  \<^verbatim>\<open>S_IFCHR\<close>. The numbers are those of newlib (\<^verbatim>\<open>S_IFCHR\<close> is octal 0020000).
\<close>

definition ENOMEM :: cint where "ENOMEM = 12"
definition EBADF :: cint where "EBADF = 9"
definition EINVAL :: cint where "EINVAL = 22"
definition ENOSYS :: cint where "ENOSYS = 88"
definition S_IFCHR :: "32 word" where "S_IFCHR = 8192"

definition NULL :: addr where "NULL = 0"

subsection \<open>State\<close>

text \<open>
  The variables the stubs read and write: the static \<^verbatim>\<open>heap_ptr\<close> (initially
  \<^verbatim>\<open>NULL\<close>), the global \<^verbatim>\<open>errno\<close>, and the cycle counter of the processor, which
  \<^verbatim>\<open>rdcycle\<close> reads. The record is extensible: every stub is defined on
  \<open>'a sys_state_scheme\<close>, so the rest of the machine (device registers, the console)
  is the extension, and a result state \<open>s\<lparr>errno := e\<rparr>\<close> says that this rest is
  untouched.
\<close>

record sys_state =
  heap_ptr :: addr
  errno :: cint
  cycle :: ull

text \<open>The two symbols of the linker script, \<^verbatim>\<open>&_end\<close> and \<^verbatim>\<open>&_heap_end\<close>.\<close>

record linker =
  end_addr :: addr
  heap_end_addr :: addr

text \<open>\<^verbatim>\<open>struct stat\<close> (only \<^verbatim>\<open>st_mode\<close> is written) and \<^verbatim>\<open>struct timeval\<close>.\<close>

record stat =
  st_mode :: "32 word"

record timeval =
  tv_sec :: "64 word"
  tv_usec :: "64 word"

subsection \<open>Heap management\<close>

text \<open>
  \<^verbatim>\<open>_sbrk\<close>: the lazy initialisation, the bound check on \<^verbatim>\<open>heap_ptr + incr\<close>
  (\<^verbatim>\<open>incr\<close> sign-extended to the width of a pointer, the comparison unsigned), the
  failure \<^verbatim>\<open>(void *) -1\<close> with \<^verbatim>\<open>ENOMEM\<close>, and the update.
\<close>

definition sys_sbrk :: "linker \<Rightarrow> cint \<Rightarrow> 'a sys_state_scheme \<Rightarrow> addr \<times> 'a sys_state_scheme" where
  "sys_sbrk L incr s =
     (let s1 = (if heap_ptr s = NULL then s\<lparr>heap_ptr := end_addr L\<rparr> else s);
          prev_heap_ptr = heap_ptr s1
      in if heap_end_addr L < heap_ptr s1 + scast incr
         then (- 1, s1\<lparr>errno := ENOMEM\<rparr>)
         else (prev_heap_ptr, s1\<lparr>heap_ptr := heap_ptr s1 + scast incr\<rparr>))"

text \<open>
  The cursor of the arena: the value \<^verbatim>\<open>heap_ptr\<close> has once the lazy initialisation
  has run, that is \<^verbatim>\<open>&_end\<close> as long as \<^verbatim>\<open>heap_ptr\<close> is \<^verbatim>\<open>NULL\<close>.
\<close>

definition cursor :: "linker \<Rightarrow> 'a sys_state_scheme \<Rightarrow> addr" where
  "cursor L s = (if heap_ptr s = NULL then end_addr L else heap_ptr s)"

text \<open>
  A sequence of \<^verbatim>\<open>_sbrk\<close> calls: for each call the cursor before it and the value
  it returned, and the state after the last call.
\<close>

fun sbrk_calls :: "linker \<Rightarrow> cint list \<Rightarrow> 'a sys_state_scheme \<Rightarrow> (addr \<times> addr) list \<times> 'a sys_state_scheme" where
  "sbrk_calls L [] s = ([], s)"
| "sbrk_calls L (d # ds) s =
     (case sys_sbrk L d s of (r, s1) \<Rightarrow>
        (case sbrk_calls L ds s1 of (rs, s2) \<Rightarrow> ((cursor L s, r) # rs, s2)))"

subsection \<open>Console\<close>

text \<open>
  \<^verbatim>\<open>_write\<close> and \<^verbatim>\<open>_read\<close>: the UART code is a comment in both; what is compiled
  sets \<^verbatim>\<open>EBADF\<close> and returns -1. The buffer of \<^verbatim>\<open>_read\<close> is returned with the
  state, as the caller sees it after the call.
\<close>

definition sys_write :: "cint \<Rightarrow> 8 word list \<Rightarrow> cint \<Rightarrow> 'a sys_state_scheme \<Rightarrow> cint \<times> 'a sys_state_scheme" where
  "sys_write file ptr len s = (- 1, s\<lparr>errno := EBADF\<rparr>)"

definition sys_read :: "cint \<Rightarrow> 8 word list \<Rightarrow> cint \<Rightarrow> 'a sys_state_scheme \<Rightarrow> cint \<times> 8 word list \<times> 'a sys_state_scheme" where
  "sys_read file ptr len s = (- 1, ptr, s\<lparr>errno := EBADF\<rparr>)"

subsection \<open>Descriptors, processes, files\<close>

definition sys_close :: "cint \<Rightarrow> 'a sys_state_scheme \<Rightarrow> cint \<times> 'a sys_state_scheme" where
  "sys_close file s = (- 1, s)"

definition sys_lseek :: "cint \<Rightarrow> cint \<Rightarrow> cint \<Rightarrow> 'a sys_state_scheme \<Rightarrow> cint \<times> 'a sys_state_scheme" where
  "sys_lseek file ptr dir s = (0, s)"

text \<open>\<^verbatim>\<open>st\<close> points to a \<^verbatim>\<open>struct stat\<close> of the caller; the structure after the call is returned.\<close>

definition sys_fstat :: "cint \<Rightarrow> 'b stat_scheme \<Rightarrow> 'a sys_state_scheme \<Rightarrow> cint \<times> 'b stat_scheme \<times> 'a sys_state_scheme" where
  "sys_fstat file st s = (0, st\<lparr>st_mode := S_IFCHR\<rparr>, s)"

definition sys_isatty :: "cint \<Rightarrow> 'a sys_state_scheme \<Rightarrow> cint \<times> 'a sys_state_scheme" where
  "sys_isatty file s = (1, s)"

definition sys_kill :: "cint \<Rightarrow> cint \<Rightarrow> 'a sys_state_scheme \<Rightarrow> cint \<times> 'a sys_state_scheme" where
  "sys_kill pid sig s = (- 1, s\<lparr>errno := EINVAL\<rparr>)"

definition sys_getpid :: "'a sys_state_scheme \<Rightarrow> cint \<times> 'a sys_state_scheme" where
  "sys_getpid s = (1, s)"

definition sys_open :: "string \<Rightarrow> cint \<Rightarrow> cint \<Rightarrow> 'a sys_state_scheme \<Rightarrow> cint \<times> 'a sys_state_scheme" where
  "sys_open name flags mode s = (- 1, s\<lparr>errno := ENOSYS\<rparr>)"

definition sys_link :: "string \<Rightarrow> string \<Rightarrow> 'a sys_state_scheme \<Rightarrow> cint \<times> 'a sys_state_scheme" where
  "sys_link old new s = (- 1, s\<lparr>errno := ENOSYS\<rparr>)"

definition sys_unlink :: "string \<Rightarrow> 'a sys_state_scheme \<Rightarrow> cint \<times> 'a sys_state_scheme" where
  "sys_unlink name s = (- 1, s\<lparr>errno := ENOSYS\<rparr>)"

definition sys_stat :: "string \<Rightarrow> 'b stat_scheme \<Rightarrow> 'a sys_state_scheme \<Rightarrow> cint \<times> 'b stat_scheme \<times> 'a sys_state_scheme" where
  "sys_stat file st s = (0, st\<lparr>st_mode := S_IFCHR\<rparr>, s)"

definition sys_fork :: "'a sys_state_scheme \<Rightarrow> cint \<times> 'a sys_state_scheme" where
  "sys_fork s = (- 1, s\<lparr>errno := ENOSYS\<rparr>)"

definition sys_execve :: "string \<Rightarrow> string list \<Rightarrow> string list \<Rightarrow> 'a sys_state_scheme \<Rightarrow> cint \<times> 'a sys_state_scheme" where
  "sys_execve name argv env s = (- 1, s\<lparr>errno := ENOSYS\<rparr>)"

text \<open>\<^verbatim>\<open>status\<close> is a pointer that \<^verbatim>\<open>_wait\<close> never follows: \<open>None\<close> is the null pointer.\<close>

definition sys_wait :: "cint option \<Rightarrow> 'a sys_state_scheme \<Rightarrow> cint \<times> 'a sys_state_scheme" where
  "sys_wait status s = (- 1, s\<lparr>errno := ENOSYS\<rparr>)"

subsection \<open>Termination\<close>

text \<open>
  \<^verbatim>\<open>_exit\<close> is \<^verbatim>\<open>while (1) { wfi }\<close>. What the instruction \<^verbatim>\<open>wfi\<close> does to the
  machine is the parameter \<open>wfi\<close>; a result \<open>Some s'\<close> would be a return to the caller
  in state \<open>s'\<close>, and \<open>None\<close> is a call that never returns.
\<close>

partial_function (option) sys_exit :: "('s \<Rightarrow> 's) \<Rightarrow> cint \<Rightarrow> 's \<Rightarrow> 's option" where
  "sys_exit wfi status s = sys_exit wfi status (wfi s)"

subsection \<open>Time\<close>

text \<open>
  \<^verbatim>\<open>_gettimeofday\<close>: \<open>tv\<close> is \<open>None\<close> for a null pointer and \<open>Some t\<close> for a pointer
  to a structure holding \<open>t\<close>; the structure after the call is returned. The division
  and the remainder are those of \<^verbatim>\<open>unsigned long long\<close>. \<^verbatim>\<open>tz\<close> is never used.
\<close>

definition rdcycle :: "'a sys_state_scheme \<Rightarrow> ull" where
  "rdcycle s = cycle s"

definition sys_gettimeofday :: "'b timeval_scheme option \<Rightarrow> addr \<Rightarrow> 'a sys_state_scheme \<Rightarrow> cint \<times> 'b timeval_scheme option \<times> 'a sys_state_scheme" where
  "sys_gettimeofday tv tz s =
     (case tv of
        None \<Rightarrow> (0, None, s)
      | Some t \<Rightarrow>
          (let cycles = rdcycle s
           in (0, Some (t\<lparr>tv_sec := cycles div 1000000000,
                           tv_usec := (cycles mod 1000000000) div 1000\<rparr>), s)))"

text \<open>
  The conversion as the specification words it, for a frequency \<open>F\<close> and a cycle count
  \<open>C\<close>, on unbounded integers: seconds \<open>C div F\<close>, microseconds
  \<open>((C mod F) * 1000000) div F\<close>.
\<close>

definition CLOCK_HZ :: int where "CLOCK_HZ = 1000000000"

definition spec_seconds :: "int \<Rightarrow> int \<Rightarrow> int" where
  "spec_seconds F C = C div F"

definition spec_microseconds :: "int \<Rightarrow> int \<Rightarrow> int" where
  "spec_microseconds F C = ((C mod F) * 1000000) div F"

section \<open>Heap management: lemmas\<close>

lemma sys_sbrk_initialised:
  "heap_ptr s \<noteq> NULL \<Longrightarrow> sys_sbrk L incr s =
     (if heap_end_addr L < heap_ptr s + scast incr
      then (- 1, s\<lparr>errno := ENOMEM\<rparr>)
      else (heap_ptr s, s\<lparr>heap_ptr := heap_ptr s + scast incr\<rparr>))"
  by (simp add: sys_sbrk_def Let_def)

lemma sys_sbrk_fresh:
  "heap_ptr s = NULL \<Longrightarrow> sys_sbrk L incr s =
     (if heap_end_addr L < end_addr L + scast incr
      then (- 1, s\<lparr>heap_ptr := end_addr L, errno := ENOMEM\<rparr>)
      else (end_addr L, s\<lparr>heap_ptr := end_addr L + scast incr\<rparr>))"
  by (simp add: sys_sbrk_def Let_def)

text \<open>Both cases at once, in terms of the cursor.\<close>

lemma sys_sbrk_cursor:
  "sys_sbrk L incr s =
     (if heap_end_addr L < cursor L s + scast incr
      then (- 1, s\<lparr>heap_ptr := cursor L s, errno := ENOMEM\<rparr>)
      else (cursor L s, s\<lparr>heap_ptr := cursor L s + scast incr\<rparr>))"
proof (cases "heap_ptr s = NULL")
  case True
  then have "cursor L s = end_addr L"
    by (simp add: cursor_def)
  with True show ?thesis
    by (simp add: sys_sbrk_fresh)
next
  case False
  then have "cursor L s = heap_ptr s"
    by (simp add: cursor_def)
  with False show ?thesis
    by (simp add: sys_sbrk_initialised)
qed

lemma sbrk_fail:
  assumes "heap_end_addr L < cursor L s + scast incr"
  shows "sys_sbrk L incr s = (- 1, s\<lparr>heap_ptr := cursor L s, errno := ENOMEM\<rparr>)"
  using assms by (simp add: sys_sbrk_cursor)

lemma sbrk_success:
  assumes "\<not> heap_end_addr L < cursor L s + scast incr"
  shows "sys_sbrk L incr s = (cursor L s, s\<lparr>heap_ptr := cursor L s + scast incr\<rparr>)"
  using assms by (simp add: sys_sbrk_cursor)

lemma sbrk_probe:
  assumes "cursor L s \<le> heap_end_addr L"
  shows "sys_sbrk L 0 s = (cursor L s, s\<lparr>heap_ptr := cursor L s\<rparr>)"
proof -
  have "\<not> heap_end_addr L < cursor L s + scast (0 :: cint)"
    using assms by (simp add: not_less)
  then show ?thesis
    using sbrk_success [of L s 0] by simp
qed

lemma cursor_heap_ptr_update:
  "cursor L (s\<lparr>heap_ptr := p\<rparr>) = (if p = NULL then end_addr L else p)"
  by (simp add: cursor_def)

lemma cursor_init: "cursor L (s\<lparr>heap_ptr := cursor L s\<rparr>) = cursor L s"
  by (simp add: cursor_def)

lemma cursor_zero: "cursor L s = 0 \<Longrightarrow> end_addr L = 0"
  by (simp add: cursor_def NULL_def split: if_splits)

text \<open>
  The address \<^verbatim>\<open>heap_ptr + incr\<close> is the sum of the numbers whenever that sum is an
  address, that is neither negative nor beyond 64 bits; the bound check is then the
  comparison of the numbers.
\<close>

lemma uint_add_scast_exact:
  fixes c :: addr and d :: cint
  assumes "0 \<le> uint c + sint d" and "uint c + sint d < 2 ^ 64"
  shows "uint (c + scast d) = uint c + sint d"
proof -
  have "c + scast d = word_of_int (uint c) + word_of_int (sint d)"
    by (simp only: scast_eq word_of_int_uint)
  also have "\<dots> = word_of_int (uint c + sint d)"
    by (simp only: wi_hom_add)
  finally have "uint (c + scast d) = (uint c + sint d) mod 2 ^ LENGTH(64)"
    by (simp only: uint_word_of_int)
  also have "\<dots> = uint c + sint d"
    using assms by simp
  finally show ?thesis .
qed


lemma uint_add_scast:
  fixes c :: addr and d :: cint
  assumes "0 \<le> sint d" and "uint c + sint d < 2 ^ 64"
  shows "uint (c + scast d) = uint c + sint d"
proof -
  have "0 \<le> uint c + sint d"
    using assms(1) uint_ge_0 [of c] by linarith
  then show ?thesis
    using assms(2) by (rule uint_add_scast_exact)
qed

text \<open>One call with a non-negative increment that fits below the limit.\<close>

lemma sbrk_step:
  assumes "0 \<le> sint d" and "uint (cursor L s) + sint d \<le> uint (heap_end_addr L)"
  shows "sys_sbrk L d s = (cursor L s, s\<lparr>heap_ptr := cursor L s + scast d\<rparr>)"
    and "uint (cursor L (s\<lparr>heap_ptr := cursor L s + scast d\<rparr>)) = uint (cursor L s) + sint d"
proof -
  have "uint (heap_end_addr L) < 2 ^ LENGTH(64)"
    by (rule uint_lt2p)
  then have "uint (cursor L s) + sint d < 2 ^ 64"
    using assms(2) by simp
  with assms(1) have sum: "uint (cursor L s + scast d) = uint (cursor L s) + sint d"
    by (rule uint_add_scast)
  then have "\<not> heap_end_addr L < cursor L s + scast d"
    using assms(2) by (simp add: word_less_def)
  then show "sys_sbrk L d s = (cursor L s, s\<lparr>heap_ptr := cursor L s + scast d\<rparr>)"
    by (rule sbrk_success)
  show "uint (cursor L (s\<lparr>heap_ptr := cursor L s + scast d\<rparr>)) = uint (cursor L s) + sint d"
  proof (cases "cursor L s + scast d = 0")
    case True
    then have "uint (cursor L s) + sint d = 0"
      using sum by simp
    then have "uint (cursor L s) = 0" and "sint d = 0"
      using assms(1) uint_ge_0 [of "cursor L s"] by linarith+
    then have "cursor L s = 0"
      by (simp add: uint_0_iff)
    then have "end_addr L = 0"
      by (rule cursor_zero)
    with True \<open>uint (cursor L s) = 0\<close> \<open>sint d = 0\<close> show ?thesis
      by (simp add: cursor_heap_ptr_update NULL_def)
  next
    case False
    then show ?thesis
      using sum by (simp add: cursor_heap_ptr_update NULL_def)
  qed
qed

lemma fst_sbrk_calls_Cons:
  "fst (sbrk_calls L (d # ds) s) =
     (cursor L s, fst (sys_sbrk L d s)) # fst (sbrk_calls L ds (snd (sys_sbrk L d s)))"
  by (simp add: case_prod_beta)

lemma snd_sbrk_calls_Cons:
  "snd (sbrk_calls L (d # ds) s) = snd (sbrk_calls L ds (snd (sys_sbrk L d s)))"
  by (simp add: case_prod_beta)

lemma sbrk_calls_length: "length (fst (sbrk_calls L ds s)) = length ds"
  by (induction ds arbitrary: s) (simp_all add: case_prod_beta)

lemma sum_list_sint_nonneg:
  "\<forall>d\<in>set ds. 0 \<le> sint d \<Longrightarrow> 0 \<le> (\<Sum>d\<leftarrow>ds. sint d)"
  by (induction ds) simp_all

text \<open>
  A sequence of non-negative increments that fits below the limit, from any state: by
  induction on the sequence, the state generalised.
\<close>

lemma sbrk_calls_within:
  assumes "\<forall>d\<in>set ds. 0 \<le> sint d"
    and "uint (cursor L s) + (\<Sum>d\<leftarrow>ds. sint d) \<le> uint (heap_end_addr L)"
  shows "(\<forall>(c, r)\<in>set (fst (sbrk_calls L ds s)). r = c)
    \<and> uint (cursor L (snd (sbrk_calls L ds s))) = uint (cursor L s) + (\<Sum>d\<leftarrow>ds. sint d)
    \<and> errno (snd (sbrk_calls L ds s)) = errno s"
  using assms
proof (induction ds arbitrary: s)
  case Nil
  then show ?case by simp
next
  case (Cons d ds)
  let ?s1 = "s\<lparr>heap_ptr := cursor L s + scast d\<rparr>"
  have d0: "0 \<le> sint d" and rest: "\<forall>d\<in>set ds. 0 \<le> sint d"
    using Cons.prems(1) by simp_all
  have "0 \<le> (\<Sum>d\<leftarrow>ds. sint d)"
    using rest by (rule sum_list_sint_nonneg)
  then have fit: "uint (cursor L s) + sint d \<le> uint (heap_end_addr L)"
    using Cons.prems(2) by simp
  have call: "sys_sbrk L d s = (cursor L s, ?s1)"
    and cur: "uint (cursor L ?s1) = uint (cursor L s) + sint d"
    using d0 fit by (rule sbrk_step)+
  have "uint (cursor L ?s1) + (\<Sum>d\<leftarrow>ds. sint d) \<le> uint (heap_end_addr L)"
    using Cons.prems(2) cur by simp
  with rest have IH: "(\<forall>(c, r)\<in>set (fst (sbrk_calls L ds ?s1)). r = c)
    \<and> uint (cursor L (snd (sbrk_calls L ds ?s1))) = uint (cursor L ?s1) + (\<Sum>d\<leftarrow>ds. sint d)
    \<and> errno (snd (sbrk_calls L ds ?s1)) = errno ?s1"
    by (rule Cons.IH)
  show ?case
    using IH cur
    by (simp add: fst_sbrk_calls_Cons snd_sbrk_calls_Cons call del: sbrk_calls.simps)
qed

section \<open>Time: lemmas\<close>

lemma sint_eq_uint_small:
  fixes w :: "64 word"
  assumes "uint w < 2 ^ 63"
  shows "sint w = uint w"
proof -
  have "- (2 ^ 63) \<le> (0 :: int)"
    by simp
  then have "- (2 ^ 63) \<le> uint w"
    using uint_ge_0 [of w] by (rule order_trans)
  then have "signed_take_bit 63 (uint w) = uint w"
    using assms by (simp add: signed_take_bit_int_eq_self)
  then show ?thesis
    by (simp add: sint_uint)
qed

lemma uint_seconds:
  fixes c :: ull
  shows "uint (c div 1000000000) = uint c div 1000000000"
  by (simp add: uint_div)

lemma uint_microseconds:
  fixes c :: ull
  shows "uint ((c mod 1000000000) div 1000) = (uint c mod 1000000000) div 1000"
  by (simp add: uint_div uint_mod)

text \<open>At 1 GHz the microseconds of the specification are the remainder divided by 1000.\<close>

lemma spec_microseconds_1GHz:
  "spec_microseconds CLOCK_HZ C = (C mod 1000000000) div 1000"
proof -
  have "((C mod 1000000000) * 1000000) div (1000 * 1000000) = (C mod 1000000000) div 1000"
    by (rule div_mult_mult2) simp
  then show ?thesis
    by (simp add: spec_microseconds_def CLOCK_HZ_def)
qed

lemma seconds_small:
  fixes c :: ull
  shows "uint c div 1000000000 < 2 ^ 63"
proof -
  have "uint c < 2 ^ LENGTH(64)"
    by (rule uint_lt2p)
  then show ?thesis
    by simp
qed

lemma microseconds_range:
  "0 \<le> (C mod 1000000000) div (1000 :: int) \<and> (C mod 1000000000) div (1000 :: int) < 1000000"
proof -
  have "0 \<le> C mod 1000000000" and "C mod 1000000000 < 1000000000"
    by simp_all
  then show ?thesis
    by arith
qed


section \<open>The claims\<close>

subsection \<open>Console\<close>

text \<open>
  Claim C1. The claim: for the output or the error stream, \<^verbatim>\<open>write_bytes\<close> transmits
  the \<open>N\<close> bytes of the buffer in order and returns \<open>N\<close>. The compiled \<^verbatim>\<open>_write\<close>
  does not look at its descriptor: a write of the one byte \<^verbatim>\<open>A\<close> to the output stream
  (descriptor 1) returns -1, not 1, sets \<^verbatim>\<open>errno\<close> to \<^verbatim>\<open>EBADF\<close> and changes
  nothing else of the machine, so no byte is transmitted.
\<close>

theorem write_stdout_fails:
  "sys_write 1 [0x41] 1 s = (- 1, s\<lparr>errno := EBADF\<rparr>)
   \<and> fst (sys_write 1 [0x41] 1 s) \<noteq> 1"
  by (simp add: sys_write_def)

text \<open>
  Claim C2. The claim: \<^verbatim>\<open>read_byte\<close> on the input stream returns exactly one byte per
  call. The compiled \<^verbatim>\<open>_read\<close> does not look at its descriptor: a read of one byte
  from the input stream (descriptor 0) returns -1, not 1, sets \<^verbatim>\<open>errno\<close> to
  \<^verbatim>\<open>EBADF\<close>, and stores nothing in the buffer.
\<close>

theorem read_stdin_fails:
  "sys_read 0 buf 1 s = (- 1, buf, s\<lparr>errno := EBADF\<rparr>)
   \<and> fst (sys_read 0 buf 1 s) \<noteq> 1"
  by (simp add: sys_read_def)

subsection \<open>Heap management\<close>




text \<open>
  Claim C4. From the fresh arena (\<^verbatim>\<open>heap_ptr\<close> still \<^verbatim>\<open>NULL\<close>, so the start is
  \<^verbatim>\<open>&_end\<close>), for every sequence of non-negative increments whose sum is at most
  limit - start: there is one result per call, every call returns the cursor from before
  that call, and after the sequence the cursor is the start plus the sum of the
  increments (and so at most the limit). In every state \<open>t\<close> with cursor at most the
  limit, in particular the one after the sequence, a call with increment 0 returns the
  cursor and leaves it where it is: the only assignment is the lazy initialisation of
  \<^verbatim>\<open>heap_ptr\<close>, and an initialised state is returned as it was.
\<close>

theorem sbrk_sequence_within_bounds:
  assumes "heap_ptr s = NULL"
    and "\<forall>d\<in>set ds. 0 \<le> sint d"
    and "uint (end_addr L) + (\<Sum>d\<leftarrow>ds. sint d) \<le> uint (heap_end_addr L)"
  shows "length (fst (sbrk_calls L ds s)) = length ds
    \<and> (\<forall>(c, r)\<in>set (fst (sbrk_calls L ds s)). r = c)
    \<and> uint (cursor L (snd (sbrk_calls L ds s))) = uint (end_addr L) + (\<Sum>d\<leftarrow>ds. sint d)
    \<and> cursor L (snd (sbrk_calls L ds s)) \<le> heap_end_addr L
    \<and> (cursor L t \<le> heap_end_addr L \<longrightarrow>
         fst (sys_sbrk L 0 t) = cursor L t
         \<and> snd (sys_sbrk L 0 t) = t\<lparr>heap_ptr := cursor L t\<rparr>
         \<and> cursor L (snd (sys_sbrk L 0 t)) = cursor L t
         \<and> (heap_ptr t \<noteq> NULL \<longrightarrow> snd (sys_sbrk L 0 t) = t))"
proof -
  let ?s' = "snd (sbrk_calls L ds s)"
  have start: "cursor L s = end_addr L"
    using assms(1) by (simp add: cursor_def)
  have "uint (cursor L s) + (\<Sum>d\<leftarrow>ds. sint d) \<le> uint (heap_end_addr L)"
    using assms(3) unfolding start .
  with assms(2) have seq: "(\<forall>(c, r)\<in>set (fst (sbrk_calls L ds s)). r = c)
    \<and> uint (cursor L ?s') = uint (cursor L s) + (\<Sum>d\<leftarrow>ds. sint d)
    \<and> errno ?s' = errno s"
    by (rule sbrk_calls_within)
  then have "uint (cursor L ?s') \<le> uint (heap_end_addr L)"
    using assms(3) unfolding start by simp
  then have below: "cursor L ?s' \<le> heap_end_addr L"
    by (simp add: word_le_def)
  have probe: "fst (sys_sbrk L 0 t) = cursor L t
      \<and> snd (sys_sbrk L 0 t) = t\<lparr>heap_ptr := cursor L t\<rparr>
      \<and> cursor L (snd (sys_sbrk L 0 t)) = cursor L t
      \<and> (heap_ptr t \<noteq> NULL \<longrightarrow> snd (sys_sbrk L 0 t) = t)"
    if "cursor L t \<le> heap_end_addr L"
  proof -
    have call: "sys_sbrk L 0 t = (cursor L t, t\<lparr>heap_ptr := cursor L t\<rparr>)"
      using that by (rule sbrk_probe)
    have "t\<lparr>heap_ptr := cursor L t\<rparr> = t" if "heap_ptr t \<noteq> NULL"
      using that by (simp add: cursor_def)
    then show ?thesis
      unfolding call by (simp add: cursor_init)
  qed
  have len: "length (fst (sbrk_calls L ds s)) = length ds"
    by (rule sbrk_calls_length)
  have pairs: "\<forall>(c, r)\<in>set (fst (sbrk_calls L ds s)). r = c"
    using seq by (rule conjunct1)
  have final: "uint (cursor L ?s') = uint (end_addr L) + (\<Sum>d\<leftarrow>ds. sint d)"
    using seq unfolding start by blast
  have zero: "cursor L t \<le> heap_end_addr L \<longrightarrow>
         fst (sys_sbrk L 0 t) = cursor L t
         \<and> snd (sys_sbrk L 0 t) = t\<lparr>heap_ptr := cursor L t\<rparr>
         \<and> cursor L (snd (sys_sbrk L 0 t)) = cursor L t
         \<and> (heap_ptr t \<noteq> NULL \<longrightarrow> snd (sys_sbrk L 0 t) = t)"
    using probe by (rule impI)
  show ?thesis
    using len pairs final below zero by (intro conjI)
qed

text \<open>
  A heap of 100 bytes: 60 bytes, a probe, and 40 more bytes fill it exactly; the probe
  after the sequence returns the limit and changes nothing.
\<close>

theorem sbrk_sequence_within_bounds_witness:
  "heap_ptr \<lparr>heap_ptr = 0, errno = 0, cycle = 0\<rparr> = NULL
   \<and> 0 \<le> sint (60 :: cint) \<and> 0 \<le> sint (0 :: cint) \<and> 0 \<le> sint (40 :: cint)
   \<and> uint (0x80100000 :: addr) + (\<Sum>d\<leftarrow>[60, 0, 40 :: cint]. sint d) \<le> uint (0x80100064 :: addr)
   \<and> sbrk_calls \<lparr>end_addr = 0x80100000, heap_end_addr = 0x80100064\<rparr> [60, 0, 40]
        \<lparr>heap_ptr = 0, errno = 0, cycle = 0\<rparr>
      = ([(0x80100000, 0x80100000), (0x8010003C, 0x8010003C), (0x8010003C, 0x8010003C)],
         \<lparr>heap_ptr = 0x80100064, errno = 0, cycle = 0\<rparr>)
   \<and> cursor \<lparr>end_addr = 0x80100000, heap_end_addr = 0x80100064\<rparr>
        \<lparr>heap_ptr = 0x80100064, errno = 0, cycle = 0\<rparr> \<le> 0x80100064
   \<and> heap_ptr \<lparr>heap_ptr = 0x80100064, errno = 0, cycle = 0\<rparr> \<noteq> NULL
   \<and> sys_sbrk \<lparr>end_addr = 0x80100000, heap_end_addr = 0x80100064\<rparr> 0
        \<lparr>heap_ptr = 0x80100064, errno = 0, cycle = 0\<rparr>
      = (0x80100064, \<lparr>heap_ptr = 0x80100064, errno = 0, cycle = 0\<rparr>)"
proof -
  let ?L = "\<lparr>end_addr = 0x80100000, heap_end_addr = 0x80100064\<rparr>"
  let ?s = "\<lparr>heap_ptr = 0, errno = 0, cycle = 0\<rparr>"
  let ?t = "\<lparr>heap_ptr = 0x80100064, errno = 0, cycle = 0\<rparr>"
  have h1: "heap_ptr ?s = NULL"
    by (simp add: NULL_def)
  have h2: "\<forall>d\<in>set [60, 0, 40 :: cint]. 0 \<le> sint d"
    by simp
  have h3: "uint (end_addr ?L) + (\<Sum>d\<leftarrow>[60, 0, 40 :: cint]. sint d) \<le> uint (heap_end_addr ?L)"
    by simp
  have r: "sbrk_calls ?L [60, 0, 40] ?s
      = ([(0x80100000, 0x80100000), (0x8010003C, 0x8010003C), (0x8010003C, 0x8010003C)], ?t)"
    by (simp add: sys_sbrk_def cursor_def NULL_def)
  have c: "cursor ?L ?t = 0x80100064"
    by (simp add: cursor_def NULL_def)
  have h4: "cursor ?L ?t \<le> heap_end_addr ?L"
    unfolding c by simp
  have h5: "heap_ptr ?t \<noteq> NULL"
    by (simp add: NULL_def)
  have "fst (sys_sbrk ?L 0 ?t) = cursor ?L ?t \<and> snd (sys_sbrk ?L 0 ?t) = ?t"
    using sbrk_sequence_within_bounds [OF h1 h2 h3, of ?t] h4 h5 by blast
  then have p: "sys_sbrk ?L 0 ?t = (0x80100064, ?t)"
    unfolding c by (simp add: prod_eq_iff)
  show ?thesis
    using h1 h2 h3 h4 h5 r p by simp
qed

text \<open>
  Claim C5, as stated: from start \<open>\<le>\<close> cursor \<open>\<le>\<close> limit, after a call with any signed
  increment the cursor is not below its previous value. It fails for a negative
  increment: with 60 bytes of a heap of 100 taken, \<^verbatim>\<open>_sbrk(-16)\<close> passes the bound
  check, returns the old cursor and moves the cursor 16 bytes down.
\<close>

theorem sbrk_shrink_counterexample:
  "end_addr \<lparr>end_addr = 0x80100000, heap_end_addr = 0x80100064\<rparr>
      \<le> cursor \<lparr>end_addr = 0x80100000, heap_end_addr = 0x80100064\<rparr>
            \<lparr>heap_ptr = 0x8010003C, errno = 0, cycle = 0\<rparr>
   \<and> cursor \<lparr>end_addr = 0x80100000, heap_end_addr = 0x80100064\<rparr>
          \<lparr>heap_ptr = 0x8010003C, errno = 0, cycle = 0\<rparr>
      \<le> heap_end_addr \<lparr>end_addr = 0x80100000, heap_end_addr = 0x80100064\<rparr>
   \<and> sys_sbrk \<lparr>end_addr = 0x80100000, heap_end_addr = 0x80100064\<rparr> (- 16)
        \<lparr>heap_ptr = 0x8010003C, errno = 0, cycle = 0\<rparr>
      = (0x8010003C, \<lparr>heap_ptr = 0x8010002C, errno = 0, cycle = 0\<rparr>)
   \<and> \<not> cursor \<lparr>end_addr = 0x80100000, heap_end_addr = 0x80100064\<rparr>
            \<lparr>heap_ptr = 0x8010003C, errno = 0, cycle = 0\<rparr>
        \<le> cursor \<lparr>end_addr = 0x80100000, heap_end_addr = 0x80100064\<rparr>
            (snd (sys_sbrk \<lparr>end_addr = 0x80100000, heap_end_addr = 0x80100064\<rparr> (- 16)
               \<lparr>heap_ptr = 0x8010003C, errno = 0, cycle = 0\<rparr>))"
  by (simp add: sys_sbrk_def cursor_def NULL_def)

text \<open>
  Claim C5, amended. From start \<open>\<le>\<close> cursor \<open>\<le>\<close> limit, after a call with any signed
  increment the cursor is at most the limit; after a call with a non-negative increment,
  cursor + delta being an address (below \<open>2 ^ 64\<close>), the cursor is not below its
  previous value.
\<close>

theorem sbrk_invariant_amended:
  assumes "end_addr L \<le> cursor L s" and "cursor L s \<le> heap_end_addr L"
  shows "cursor L (snd (sys_sbrk L delta s)) \<le> heap_end_addr L
    \<and> (0 \<le> sint delta \<and> uint (cursor L s) + sint delta < 2 ^ 64
         \<longrightarrow> cursor L s \<le> cursor L (snd (sys_sbrk L delta s)))"
proof (cases "heap_end_addr L < cursor L s + scast delta")
  case True
  then have "sys_sbrk L delta s = (- 1, s\<lparr>heap_ptr := cursor L s, errno := ENOMEM\<rparr>)"
    by (rule sbrk_fail)
  moreover have "cursor L (s\<lparr>heap_ptr := cursor L s, errno := ENOMEM\<rparr>) = cursor L s"
    by (simp add: cursor_def)
  ultimately show ?thesis
    using assms(2) by simp
next
  case False
  let ?p = "cursor L s + scast delta"
  let ?s' = "s\<lparr>heap_ptr := ?p\<rparr>"
  have call: "sys_sbrk L delta s = (cursor L s, ?s')"
    using False by (rule sbrk_success)
  have cur: "cursor L ?s' = (if ?p = NULL then end_addr L else ?p)"
    by (rule cursor_heap_ptr_update)
  have "end_addr L \<le> heap_end_addr L"
    using assms by (rule order_trans)
  moreover have "?p \<le> heap_end_addr L"
    using False by (simp add: not_less)
  ultimately have bound: "cursor L ?s' \<le> heap_end_addr L"
    unfolding cur by simp
  have mono: "cursor L s \<le> cursor L ?s'"
    if "0 \<le> sint delta" and "uint (cursor L s) + sint delta < 2 ^ 64"
  proof -
    have sum: "uint ?p = uint (cursor L s) + sint delta"
      using that by (rule uint_add_scast)
    show ?thesis
    proof (cases "?p = NULL")
      case True
      then have "uint (cursor L s) + sint delta = 0"
        using sum by (simp add: NULL_def)
      then have "uint (cursor L s) = 0"
        using that(1) uint_ge_0 [of "cursor L s"] by linarith
      then have "cursor L s = 0"
        by (simp add: uint_0_iff)
      then show ?thesis
        by simp
    next
      case False
      then have "cursor L ?s' = ?p"
        unfolding cur by simp
      moreover have "uint (cursor L s) \<le> uint ?p"
        using sum that(1) by simp
      ultimately show ?thesis
        by (simp add: word_le_def)
    qed
  qed
  show ?thesis
    using bound mono unfolding call by simp
qed

theorem sbrk_invariant_amended_witness:
  "end_addr \<lparr>end_addr = 0x80100000, heap_end_addr = 0x80100064\<rparr>
      \<le> cursor \<lparr>end_addr = 0x80100000, heap_end_addr = 0x80100064\<rparr>
            \<lparr>heap_ptr = 0x8010003C, errno = 0, cycle = 0\<rparr>
   \<and> cursor \<lparr>end_addr = 0x80100000, heap_end_addr = 0x80100064\<rparr>
          \<lparr>heap_ptr = 0x8010003C, errno = 0, cycle = 0\<rparr>
      \<le> heap_end_addr \<lparr>end_addr = 0x80100000, heap_end_addr = 0x80100064\<rparr>
   \<and> 0 \<le> sint (40 :: cint)
   \<and> uint (0x8010003C :: addr) + sint (40 :: cint) < 2 ^ 64
   \<and> cursor \<lparr>end_addr = 0x80100000, heap_end_addr = 0x80100064\<rparr>
         (snd (sys_sbrk \<lparr>end_addr = 0x80100000, heap_end_addr = 0x80100064\<rparr> 40
            \<lparr>heap_ptr = 0x8010003C, errno = 0, cycle = 0\<rparr>)) = 0x80100064
   \<and> (0x80100064 :: addr) \<le> 0x80100064
   \<and> (0x8010003C :: addr) \<le> 0x80100064"
proof -
  let ?L = "\<lparr>end_addr = 0x80100000, heap_end_addr = 0x80100064\<rparr>"
  let ?s = "\<lparr>heap_ptr = 0x8010003C, errno = 0, cycle = 0\<rparr>"
  have c: "cursor ?L ?s = 0x8010003C"
    by (simp add: cursor_def NULL_def)
  have h1: "end_addr ?L \<le> cursor ?L ?s"
    unfolding c by simp
  have h2: "cursor ?L ?s \<le> heap_end_addr ?L"
    unfolding c by simp
  have r: "cursor ?L (snd (sys_sbrk ?L 40 ?s)) = 0x80100064"
    by (simp add: sys_sbrk_def cursor_def NULL_def)
  show ?thesis
    using sbrk_invariant_amended [OF h1 h2, of 40] h1 h2 r by simp
qed

subsection \<open>Time\<close>

text \<open>
  Claim C6. At 1 GHz, for every value of the 64-bit cycle counter, \<^verbatim>\<open>_gettimeofday\<close>
  with a non-null \<^verbatim>\<open>tv\<close> returns 0 and stores: in \<^verbatim>\<open>tv_sec\<close> the cycles divided by
  the frequency (floor division), in \<^verbatim>\<open>tv_usec\<close> the value
  ((cycles mod frequency) * 1000000) div frequency of the specification, which is at
  least 0 and below 1000000. Both fields are signed 64-bit integers (\<^verbatim>\<open>time_t\<close>,
  \<^verbatim>\<open>suseconds_t\<close>), read by \<open>sint\<close>. With the counter at 3 * F + F div 2 the
  result is 3 seconds and 500000 microseconds.
\<close>

theorem gettimeofday_conversion:
  "(\<exists>sec usec.
      sys_gettimeofday (Some t) tz s = (0, Some (t\<lparr>tv_sec := sec, tv_usec := usec\<rparr>), s)
      \<and> sint sec = spec_seconds CLOCK_HZ (uint (cycle s))
      \<and> sint usec = spec_microseconds CLOCK_HZ (uint (cycle s))
      \<and> 0 \<le> sint usec \<and> sint usec < 1000000)
   \<and> sys_gettimeofday (Some t) tz (s\<lparr>cycle := 3 * 1000000000 + 1000000000 div 2\<rparr>)
       = (0, Some (t\<lparr>tv_sec := 3, tv_usec := 500000\<rparr>),
          s\<lparr>cycle := 3 * 1000000000 + 1000000000 div 2\<rparr>)"
proof
  let ?c = "cycle s"
  let ?sec = "?c div 1000000000"
  let ?usec = "(?c mod 1000000000) div 1000"
  have call: "sys_gettimeofday (Some t) tz s = (0, Some (t\<lparr>tv_sec := ?sec, tv_usec := ?usec\<rparr>), s)"
    by (simp add: sys_gettimeofday_def rdcycle_def Let_def)
  have "uint ?sec < 2 ^ 63"
    unfolding uint_seconds by (rule seconds_small)
  then have "sint ?sec = uint ?sec"
    by (rule sint_eq_uint_small)
  then have sec: "sint ?sec = spec_seconds CLOCK_HZ (uint ?c)"
    by (simp only: uint_seconds spec_seconds_def CLOCK_HZ_def)
  have range: "0 \<le> uint ?usec \<and> uint ?usec < 1000000"
    unfolding uint_microseconds by (rule microseconds_range)
  then have "uint ?usec < 2 ^ 63"
    by simp
  then have su: "sint ?usec = uint ?usec"
    by (rule sint_eq_uint_small)
  then have usec: "sint ?usec = spec_microseconds CLOCK_HZ (uint ?c)"
    by (simp only: uint_microseconds spec_microseconds_1GHz)
  show "\<exists>sec usec.
      sys_gettimeofday (Some t) tz s = (0, Some (t\<lparr>tv_sec := sec, tv_usec := usec\<rparr>), s)
      \<and> sint sec = spec_seconds CLOCK_HZ (uint (cycle s))
      \<and> sint usec = spec_microseconds CLOCK_HZ (uint (cycle s))
      \<and> 0 \<le> sint usec \<and> sint usec < 1000000"
  proof (intro exI conjI)
    show "sys_gettimeofday (Some t) tz s = (0, Some (t\<lparr>tv_sec := ?sec, tv_usec := ?usec\<rparr>), s)"
      by (rule call)
    show "sint ?sec = spec_seconds CLOCK_HZ (uint ?c)"
      by (rule sec)
    show "sint ?usec = spec_microseconds CLOCK_HZ (uint ?c)"
      by (rule usec)
    show "0 \<le> sint ?usec" and "sint ?usec < 1000000"
      using range unfolding su by simp_all
  qed
  show "sys_gettimeofday (Some t) tz (s\<lparr>cycle := 3 * 1000000000 + 1000000000 div 2\<rparr>)
       = (0, Some (t\<lparr>tv_sec := 3, tv_usec := 500000\<rparr>),
          s\<lparr>cycle := 3 * 1000000000 + 1000000000 div 2\<rparr>)"
    by (simp add: sys_gettimeofday_def rdcycle_def)
qed


subsection \<open>Descriptors and termination\<close>

text \<open>
  Claim C7. The stubs do not depend on their arguments: \<^verbatim>\<open>_close\<close> returns -1 for
  every handle; \<^verbatim>\<open>_open\<close>, \<^verbatim>\<open>_link\<close>, \<^verbatim>\<open>_unlink\<close>, \<^verbatim>\<open>_fork\<close>, \<^verbatim>\<open>_execve\<close> and
  \<^verbatim>\<open>_wait\<close> return -1 with \<^verbatim>\<open>ENOSYS\<close>; \<^verbatim>\<open>_kill\<close> returns -1 with \<^verbatim>\<open>EINVAL\<close>;
  \<^verbatim>\<open>_lseek\<close> returns 0, \<^verbatim>\<open>_isatty\<close> returns 1, \<^verbatim>\<open>_fstat\<close> and \<^verbatim>\<open>_stat\<close> return 0
  with the mode \<^verbatim>\<open>S_IFCHR\<close>, and \<^verbatim>\<open>_getpid\<close> returns 1.
\<close>

theorem descriptor_stubs_constant:
  "sys_close file s = (- 1, s)
   \<and> sys_open name flags mode s = (- 1, s\<lparr>errno := ENOSYS\<rparr>)
   \<and> sys_link old new s = (- 1, s\<lparr>errno := ENOSYS\<rparr>)
   \<and> sys_unlink name s = (- 1, s\<lparr>errno := ENOSYS\<rparr>)
   \<and> sys_fork s = (- 1, s\<lparr>errno := ENOSYS\<rparr>)
   \<and> sys_execve name argv env s = (- 1, s\<lparr>errno := ENOSYS\<rparr>)
   \<and> sys_wait status s = (- 1, s\<lparr>errno := ENOSYS\<rparr>)
   \<and> sys_kill pid sig s = (- 1, s\<lparr>errno := EINVAL\<rparr>)
   \<and> sys_lseek file ptr dir s = (0, s)
   \<and> sys_isatty file s = (1, s)
   \<and> sys_fstat file st s = (0, st\<lparr>st_mode := S_IFCHR\<rparr>, s)
   \<and> sys_stat name st s = (0, st\<lparr>st_mode := S_IFCHR\<rparr>, s)
   \<and> sys_getpid s = (1, s)"
  by (simp add: sys_close_def sys_open_def sys_link_def sys_unlink_def sys_fork_def
      sys_execve_def sys_wait_def sys_kill_def sys_lseek_def sys_isatty_def sys_fstat_def
      sys_stat_def sys_getpid_def)

text \<open>
  Claim C8. The claim: \<^verbatim>\<open>close\<close> fails and sets an error kind for the caller to
  inspect. \<^verbatim>\<open>_close\<close> returns -1 and assigns nothing: for every handle \<^verbatim>\<open>errno\<close> is
  after the call what it was before, and with \<^verbatim>\<open>errno\<close> at 0 before \<^verbatim>\<open>_close(3)\<close> it
  is 0 after it.
\<close>

theorem close_leaves_errno:
  "sys_close 3 \<lparr>heap_ptr = 0, errno = 0, cycle = 0\<rparr>
      = (- 1, \<lparr>heap_ptr = 0, errno = 0, cycle = 0\<rparr>)
   \<and> errno (snd (sys_close file s)) = errno s"
  by (simp add: sys_close_def)

text \<open>
  Claim C9. \<^verbatim>\<open>_exit\<close> returns for no status and from no state, whatever \<^verbatim>\<open>wfi\<close>
  does to the machine: a return would be a value \<open>Some s'\<close>.
\<close>

theorem exit_never_returns: "sys_exit wfi status s = None"
proof (cases "sys_exit wfi status s")
  case None
  then show ?thesis .
next
  case (Some s')
  have False
    by (rule sys_exit.raw_induct [where P = "\<lambda>_ _ _ _. False", OF _ Some])
  then show ?thesis ..
qed

end
